theory Spec2Isabelle
  imports Main "HOL-Library.AList"
begin

section \<open>Python values, exceptions and strings\<close>

text \<open>
  The objects the parameter models receive from a caller: \<open>None\<close>, booleans, integers,
  \<open>str\<close> and \<open>bytes\<close>. A \<open>char\<close> of a \<open>str\<close> is a code point below 256.
\<close>

datatype pyval = PNone | PBool bool | PInt int | PStr string | PBytes string

text \<open>
  An exception is its class name, its message (\<open>str(e)\<close>) and the cause attached by
  \<open>raise ... from e\<close>. Every exception of the model is a subclass of \<open>Exception\<close>.
\<close>

datatype exn = Exn (exn_class: string) (exn_msg: string) (exn_cause: "exn option")

text \<open>The text of an \<open>AttributeError\<close>: type and attribute in single quotes.\<close>

definition quoted :: "string \<Rightarrow> string" where
  "quoted s = CHR 0x27 # s @ [CHR 0x27]"

definition no_attribute :: "string \<Rightarrow> string \<Rightarrow> exn" where
  "no_attribute ty name =
     Exn ''AttributeError'' (quoted ty @ '' object has no attribute '' @ quoted name) None"

text \<open>
  The code points below 256 that \<open>str.strip()\<close> removes: tab to carriage return, the
  four separators, space, next line (133) and no-break space (160).
\<close>

definition str_isspace :: "char \<Rightarrow> bool" where
  "str_isspace c =
     (let n = (of_char c :: nat)
      in (9 \<le> n \<and> n \<le> 13) \<or> (28 \<le> n \<and> n \<le> 32) \<or> n = 133 \<or> n = 160)"

text \<open>\<open>bytes.strip()\<close> removes the six ASCII whitespace bytes only.\<close>

definition bytes_isspace :: "char \<Rightarrow> bool" where
  "bytes_isspace c = (let n = (of_char c :: nat) in (9 \<le> n \<and> n \<le> 13) \<or> n = 32)"

definition strip_with :: "(char \<Rightarrow> bool) \<Rightarrow> string \<Rightarrow> string" where
  "strip_with sp s = rev (dropWhile sp (rev (dropWhile sp s)))"

definition str_strip :: "string \<Rightarrow> string" where
  "str_strip = strip_with str_isspace"

text \<open>
  \<open>str.upper()\<close> per code point: the letters a to z, and the Latin-1 letters 224 to 254
  other than the division sign 247, move down by 32. The three code points whose
  upper case is not one code point below 256 (181, 223, 255) are kept as they are.
\<close>

definition upper_char :: "char \<Rightarrow> char" where
  "upper_char c =
     (let n = (of_char c :: nat)
      in if (97 \<le> n \<and> n \<le> 122) \<or> (224 \<le> n \<and> n \<le> 254 \<and> n \<noteq> 247)
         then char_of (n - 32) else c)"

definition str_upper :: "string \<Rightarrow> string" where
  "str_upper = map upper_char"

definition is_lower :: "char \<Rightarrow> bool" where
  "is_lower c = (let n = (of_char c :: nat) in 97 \<le> n \<and> n \<le> 122)"

text \<open>\<open>s.split(sep)\<close> for a one-character separator: never empty, \<open>''.split(',') == ['']\<close>.\<close>

fun str_split :: "char \<Rightarrow> string \<Rightarrow> string list" where
  "str_split sep [] = [[]]"
| "str_split sep (c # cs) =
     (if c = sep then [] # str_split sep cs
      else (case str_split sep cs of [] \<Rightarrow> [[c]] | p # ps \<Rightarrow> (c # p) # ps))"

text \<open>\<open>sep.join(xs)\<close>.\<close>

fun str_join :: "char \<Rightarrow> string list \<Rightarrow> string" where
  "str_join sep [] = []"
| "str_join sep [x] = x"
| "str_join sep (x # y # ys) = x @ sep # str_join sep (y # ys)"

section \<open>PortfolioQueryParams.upper_symbol\<close>

text \<open>
  The field validator receives the raw value before type coercion: a \<open>str\<close>, or a
  collection, given here in its iteration order.
\<close>

datatype symbol_arg = SymbolStr string | SymbolColl "pyval list"

text \<open>
  \<open>item.strip()\<close>: \<open>str\<close> and \<open>bytes\<close> have the method, and each returns its own type;
  the other objects have no attribute \<open>strip\<close>.
\<close>

fun item_strip :: "pyval \<Rightarrow> exn + pyval" where
  "item_strip (PStr s) = Inr (PStr (str_strip s))"
| "item_strip (PBytes b) = Inr (PBytes (strip_with bytes_isspace b))"
| "item_strip PNone = Inl (no_attribute ''NoneType'' ''strip'')"
| "item_strip (PBool b) = Inl (no_attribute ''bool'' ''strip'')"
| "item_strip (PInt n) = Inl (no_attribute ''int'' ''strip'')"

fun item_upper :: "pyval \<Rightarrow> exn + pyval" where
  "item_upper (PStr s) = Inr (PStr (str_upper s))"
| "item_upper (PBytes b) = Inr (PBytes (str_upper b))"
| "item_upper PNone = Inl (no_attribute ''NoneType'' ''upper'')"
| "item_upper (PBool b) = Inl (no_attribute ''bool'' ''upper'')"
| "item_upper (PInt n) = Inl (no_attribute ''int'' ''upper'')"

fun is_str :: "pyval \<Rightarrow> bool" where
  "is_str (PStr s) = True"
| "is_str v = False"

text \<open>
  \<open>all(isinstance(item.strip(), str) for item in v)\<close>: the generator is consumed in
  order; the first item without \<open>strip\<close> raises, the first item whose \<open>strip()\<close> is not
  a \<open>str\<close> ends the scan with \<open>False\<close>.
\<close>

fun all_strip_is_str :: "pyval list \<Rightarrow> exn + bool" where
  "all_strip_is_str [] = Inr True"
| "all_strip_is_str (item # v) =
     (case item_strip item of
        Inl e \<Rightarrow> Inl e
      | Inr r \<Rightarrow> if is_str r then all_strip_is_str v else Inr False)"

text \<open>\<open>[symbol.strip().upper() for symbol in v]\<close>.\<close>

fun strip_upper_all :: "pyval list \<Rightarrow> exn + pyval list" where
  "strip_upper_all [] = Inr []"
| "strip_upper_all (symbol # v) =
     (case item_strip symbol of
        Inl e \<Rightarrow> Inl e
      | Inr r \<Rightarrow>
          (case item_upper r of
             Inl e \<Rightarrow> Inl e
           | Inr u \<Rightarrow>
               (case strip_upper_all v of
                  Inl e \<Rightarrow> Inl e
                | Inr us \<Rightarrow> Inr (u # us))))"

definition upper_symbol :: "symbol_arg \<Rightarrow> exn + pyval list" where
  "upper_symbol v0 =
     (let v = (case v0 of SymbolStr s \<Rightarrow> map PStr (str_split CHR '','' s) | SymbolColl xs \<Rightarrow> xs) in
      case all_strip_is_str v of
        Inl e \<Rightarrow> Inl e
      | Inr ok \<Rightarrow>
          if \<not> ok then Inl (Exn ''ValueError'' ''Every element in `symbol` list must be a `str`'' None)
          else strip_upper_all v)"

section \<open>Frames\<close>

text \<open>
  A polars frame, column-major: column names in order, each with its cells. A float cell
  \<open>Float64 m e\<close> stands for \<open>m * 2 ^ e\<close>; no claim computes on it.
\<close>

datatype cell = Null | Date int | Utf8 string | Float64 int int

type_synonym column = "cell list"

type_synonym frame = "(string \<times> column) list"

definition height :: "frame \<Rightarrow> nat" where
  "height df = (case df of [] \<Rightarrow> 0 | (n, c) # rest \<Rightarrow> length c)"

text \<open>
  \<open>pl.lit(v)\<close> inside \<open>with_columns\<close> is broadcast to the height of the frame; a frame
  without columns gets one row.
\<close>

definition lit_column :: "frame \<Rightarrow> cell \<Rightarrow> column" where
  "lit_column df v = replicate (if df = [] then 1 else height df) v"

text \<open>
  \<open>df.with_columns(name=col)\<close> replaces the column of that name where it stands, or
  appends it; \<open>dict.update\<close> does the same to a key. Both are \<open>AList.update\<close>.
\<close>

definition with_columns :: "string \<Rightarrow> column \<Rightarrow> frame \<Rightarrow> frame" where
  "with_columns name col df = AList.update name col df"

definition drop_columns :: "string list \<Rightarrow> frame \<Rightarrow> frame" where
  "drop_columns names df = filter (\<lambda>(n, c). n \<notin> set names) df"

fun dict_update :: "(string \<times> 'v) list \<Rightarrow> (string \<times> 'v) list \<Rightarrow> (string \<times> 'v) list" where
  "dict_update d [] = d"
| "dict_update d ((k, v) # kvs) = dict_update (AList.update k v d) kvs"

text \<open>
  A \<open>LazyFrame\<close> is a source table and the steps queued on it; nothing is computed
  until \<open>collect()\<close>. The fetchers queue two kinds of step: \<open>.drop(names)\<close> and
  \<open>.with_columns(name=pl.lit(v))\<close>. \<open>.drop\<close> is strict: when the plan is collected, a
  name the table does not have fails the plan with \<open>ColumnNotFoundError\<close> (its
  message is modelled as the first missing name).
\<close>

datatype plan_step = Drop "string list" | WithColumnsLit string cell

type_synonym lazyframe = "frame \<times> plan_step list"

definition lazy :: "frame \<Rightarrow> lazyframe" where
  "lazy df = (df, [])"

definition lazy_drop :: "string list \<Rightarrow> lazyframe \<Rightarrow> lazyframe" where
  "lazy_drop names lf = (fst lf, snd lf @ [Drop names])"

definition lazy_with_columns :: "string \<Rightarrow> cell \<Rightarrow> lazyframe \<Rightarrow> lazyframe" where
  "lazy_with_columns name v lf = (fst lf, snd lf @ [WithColumnsLit name v])"

fun run_step :: "plan_step \<Rightarrow> frame \<Rightarrow> exn + frame" where
  "run_step (Drop names) df =
     (case filter (\<lambda>n. n \<notin> set (map fst df)) names of
        [] \<Rightarrow> Inr (drop_columns names df)
      | missing # more \<Rightarrow> Inl (Exn ''ColumnNotFoundError'' missing None))"
| "run_step (WithColumnsLit name v) df = Inr (with_columns name (lit_column df v) df)"

fun run_plan :: "plan_step list \<Rightarrow> frame \<Rightarrow> exn + frame" where
  "run_plan [] df = Inr df"
| "run_plan (step # steps) df =
     (case run_step step df of Inl e \<Rightarrow> Inl e | Inr df' \<Rightarrow> run_plan steps df')"

definition collect :: "lazyframe \<Rightarrow> exn + frame" where
  "collect lf = run_plan (snd lf) (fst lf)"

section \<open>The schema contract\<close>

datatype dtype = TDate | TStr | TFloat

fun cell_has_type :: "dtype \<Rightarrow> cell \<Rightarrow> bool" where
  "cell_has_type TDate (Date d) = True"
| "cell_has_type TStr (Utf8 s) = True"
| "cell_has_type TFloat (Float64 m e) = True"
| "cell_has_type t c = False"

type_synonym schema = "(string \<times> dtype) list"

fun columns_conform :: "schema \<Rightarrow> frame \<Rightarrow> bool" where
  "columns_conform [] [] = True"
| "columns_conform ((n, t) # sch) ((m, c) # df) =
     (n = m \<and> list_all (cell_has_type t) c \<and> columns_conform sch df)"
| "columns_conform sch df = False"

text \<open>
  Modelled from the spec: the validation done by the abstract \<open>Data\<close> model
  (\<open>humbldata.core.standard_models.abstract.data\<close>), which the sources use and do not
  contain. Every row must satisfy the declared column name, order and type; an unknown
  or a missing column is a hard error, nothing is dropped; the validated table is
  returned as it is.
\<close>

definition Data_validate :: "schema \<Rightarrow> frame \<Rightarrow> exn + frame" where
  "Data_validate sch df =
     (if columns_conform sch df then Inr df
      else Inl (Exn ''SchemaError'' ''table does not conform to the declared schema'' None))"

definition MomentumData :: schema where
  "MomentumData = [(''example_column'', TDate)]"

definition MandelbrotChannelData :: schema where
  "MandelbrotChannelData =
     [(''date'', TDate), (''symbol'', TStr), (''bottom_price'', TFloat),
      (''recent_price'', TFloat), (''top_price'', TFloat)]"

section \<open>Context parameters, the provider and the envelope\<close>

datatype Warning = Warning (category: string) (message: string)

datatype Chart = Chart string

text \<open>
  The context object as the fetchers read it. \<open>ToolboxQueryParams\<close> is declared outside
  the sources, and the two fetchers read the requested symbols under two names: the
  Momentum fetcher reads the attribute \<open>symbols\<close>, the Mandelbrot fetcher the attribute
  \<open>symbol\<close>. Each is \<open>None\<close> when the object has no such attribute, and otherwise the
  sequence the fetcher takes \<open>len\<close> and \<open>[0]\<close> of. \<open>tq_warnings\<close> is \<open>None\<close> when the
  object has no attribute \<open>warnings\<close> (\<open>hasattr\<close> is false).
\<close>

record ToolboxQueryParams =
  symbols :: "string list option"
  symbol :: "string list option"
  start_date :: string
  end_date :: string
  tq_provider :: string
  tq_warnings :: "Warning list option"

text \<open>
  One call of \<open>obb.equity.price.historical(symbol, start_date, end_date, provider)\<close>
  followed by \<open>.to_polars()\<close>: the collaborator is a parameter of the model, and either
  raises or returns a table.
\<close>

type_synonym provider_call = "string list \<times> string \<times> string \<times> string"

type_synonym historical = "provider_call \<Rightarrow> exn + frame"

definition historical_call :: "string list \<Rightarrow> ToolboxQueryParams \<Rightarrow> provider_call" where
  "historical_call syms ctx = (syms, start_date ctx, end_date ctx, tq_provider ctx)"

text \<open>
  What a fetcher holds as \<open>command_params\<close>: \<open>None\<close>, a mapping of keyword arguments, or
  an instance of the command's parameter model.
\<close>

datatype ('kw, 'q) command_arg = CmdNone | CmdKwargs 'kw | CmdModel 'q

text \<open>
  Modelled from the spec: \<open>HumblObject\<close>
  (\<open>humbldata.core.standard_models.abstract.humblobject\<close>), the result envelope, which
  the sources construct and do not contain: a plain container of the keyword arguments
  it is called with. The keywords \<open>_context_params\<close> and \<open>_command_params\<close> of the
  Mandelbrot fetcher are the fields \<open>private_context_params\<close> and
  \<open>private_command_params\<close>. A field of the four parameter fields and \<open>extra\<close> is
  \<open>None\<close> when its keyword is not passed; \<open>warnings\<close> and \<open>chart\<close> are always passed,
  and \<open>None\<close> there is Python's \<open>None\<close>.
\<close>

record ('kw, 'q) HumblObject =
  results :: frame
  provider :: string
  warnings :: "Warning list option"
  chart :: "Chart option"
  context_params :: "ToolboxQueryParams option"
  command_params :: "('kw, 'q) command_arg option"
  private_context_params :: "ToolboxQueryParams option"
  private_command_params :: "('kw, 'q) command_arg option"
  extra :: "(string \<times> pyval) list option"

text \<open>
  \<open>raise Cls(msg) from cause\<close> evaluates the name \<open>Cls\<close> first: a name that the module
  does not bind (and that is no builtin) raises \<open>NameError\<close> instead.
\<close>

definition raise_global :: "string list \<Rightarrow> string \<Rightarrow> string \<Rightarrow> exn option \<Rightarrow> exn" where
  "raise_global module_names cls msg cause =
     (if cls \<in> set module_names then Exn cls msg cause
      else Exn ''NameError'' (''name '' @ quoted cls @ '' is not defined'') None)"

text \<open>
  A pydantic \<open>ValidationError\<close>; its message is modelled as the names of the offending
  fields, in declaration order.
\<close>

definition validation_error :: "string list \<Rightarrow> exn" where
  "validation_error names = Exn ''ValidationError'' (str_join CHR '','' names) None"

text \<open>\<open>Model(**x)\<close> for an \<open>x\<close> of type \<open>ty\<close> that is no mapping.\<close>

definition not_a_mapping :: "string \<Rightarrow> string \<Rightarrow> exn" where
  "not_a_mapping callee ty =
     Exn ''TypeError'' (callee @ ''() argument after ** must be a mapping, not '' @ ty) None"

section \<open>Momentum: parameters\<close>

record MomentumQueryParams =
  method_name :: string
  period :: int

text \<open>
  The field \<open>method\<close> is \<open>method_name\<close> here. The mapping a caller passes as
  \<open>command_params\<close> is given by declared field: \<open>None\<close> is a key that is absent. Values
  of another Python type and undeclared keys are outside this type.
\<close>

record momentum_kwargs =
  kw_method :: "string option"
  kw_period :: "int option"

definition no_momentum_kwargs :: momentum_kwargs where
  "no_momentum_kwargs = \<lparr>kw_method = None, kw_period = None\<rparr>"

definition validate_method :: "string \<Rightarrow> string" where
  "validate_method v = v"

text \<open>
  \<open>MomentumQueryParams(**kw)\<close>: \<open>method\<close> is a \<open>Literal\<close> of three strings with default
  \<open>log\<close>, \<open>period\<close> an \<open>int\<close> with \<open>ge=1\<close> and default 1.
\<close>

definition MomentumQueryParams_init :: "momentum_kwargs \<Rightarrow> exn + MomentumQueryParams" where
  "MomentumQueryParams_init kw =
     (let m = (case kw_method kw of None \<Rightarrow> ''log'' | Some s \<Rightarrow> s);
          p = (case kw_period kw of None \<Rightarrow> 1 | Some n \<Rightarrow> n);
          bad = (if m \<in> set [''log'', ''simple'', ''shift''] then [] else [''method'']) @
                (if 1 \<le> p then [] else [''period''])
      in if bad = [] then Inr \<lparr>method_name = validate_method m, period = p\<rparr>
         else Inl (validation_error bad))"

text \<open>Truthiness: \<open>None\<close> and the empty mapping are falsy, a model instance is truthy.\<close>

fun momentum_truthy :: "(momentum_kwargs, MomentumQueryParams) command_arg \<Rightarrow> bool" where
  "momentum_truthy CmdNone = False"
| "momentum_truthy (CmdKwargs kw) = (kw \<noteq> no_momentum_kwargs)"
| "momentum_truthy (CmdModel q) = True"

definition MomentumQueryParams_path :: string where
  "MomentumQueryParams_path =
     ''humbldata.core.standard_models.toolbox.technical.momentum.MomentumQueryParams''"

section \<open>Momentum: the fetcher\<close>

text \<open>
  The attributes of a \<open>MomentumFetcher\<close>. \<open>mf_warnings\<close> and \<open>mf_extra\<close> are \<open>None\<close> when
  the attribute does not exist (the source asks \<open>hasattr\<close>), the two frames are \<open>None\<close>
  until their stage has set them. \<open>mf_provider_calls\<close> is no attribute: it records the
  calls made to the provider, in order.
\<close>

record MomentumFetcher =
  mf_context_params :: ToolboxQueryParams
  mf_command_params :: "(momentum_kwargs, MomentumQueryParams) command_arg"
  mf_warnings :: "Warning list option"
  mf_extra :: "(string \<times> pyval) list option"
  mf_chart :: "Chart option"
  mf_equity_historical_data :: "lazyframe option"
  mf_transformed_data :: "frame option"
  mf_provider_calls :: "provider_call list"

definition MomentumFetcher_init ::
  "ToolboxQueryParams \<Rightarrow> (momentum_kwargs, MomentumQueryParams) command_arg \<Rightarrow> MomentumFetcher" where
  "MomentumFetcher_init ctx cmd =
     \<lparr>mf_context_params = ctx, mf_command_params = cmd, mf_warnings = Some [],
      mf_extra = Some [], mf_chart = None, mf_equity_historical_data = None,
      mf_transformed_data = None, mf_provider_calls = []\<rparr>"

text \<open>
  Every method returns the exception it raised, if any, and the object as the call left
  it.
\<close>

definition momentum_transform_query :: "MomentumFetcher \<Rightarrow> exn option \<times> MomentumFetcher" where
  "momentum_transform_query self =
     (if \<not> momentum_truthy (mf_command_params self) then
        (case MomentumQueryParams_init no_momentum_kwargs of
           Inl e \<Rightarrow> (Some e, self)
         | Inr q \<Rightarrow> (None, self\<lparr>mf_command_params := CmdModel q\<rparr>))
      else
        (case mf_command_params self of
           CmdKwargs kw \<Rightarrow>
             (case MomentumQueryParams_init kw of
                Inl e \<Rightarrow> (Some e, self)
              | Inr q \<Rightarrow> (None, self\<lparr>mf_command_params := CmdModel q\<rparr>))
         | CmdNone \<Rightarrow> (Some (not_a_mapping MomentumQueryParams_path ''NoneType''), self)
         | CmdModel q \<Rightarrow>
             (Some (not_a_mapping MomentumQueryParams_path ''MomentumQueryParams''), self)))"

text \<open>
  \<open>extract_data\<close> reads \<open>context_params.symbols\<close> while it builds the arguments of the
  provider call: without the attribute no call is made.
\<close>

definition momentum_extract_data :: "historical \<Rightarrow> MomentumFetcher \<Rightarrow> exn option \<times> MomentumFetcher" where
  "momentum_extract_data obb_historical self =
     (let ctx = mf_context_params self in
      case symbols ctx of
        None \<Rightarrow> (Some (no_attribute ''ToolboxQueryParams'' ''symbols''), self)
      | Some syms \<Rightarrow>
          let call = historical_call syms ctx;
              self1 = self\<lparr>mf_provider_calls := mf_provider_calls self @ [call]\<rparr>
          in case obb_historical call of
               Inl e \<Rightarrow> (Some e, self1)
             | Inr df \<Rightarrow>
                 let self2 = self1\<lparr>mf_equity_historical_data := Some (lazy df)\<rparr> in
                 if length syms = 1 then
                   (None, self2\<lparr>mf_equity_historical_data :=
                      Some (lazy_with_columns ''symbol'' (Utf8 (syms ! 0)) (lazy df))\<rparr>)
                 else (None, self2))"

text \<open>The names the module \<open>momentum.py\<close> binds: its imports, assignments and classes.\<close>

definition momentum_module_names :: "string list" where
  "momentum_module_names =
     [''Literal'', ''TypeVar'', ''pa'', ''pl'', ''obb'', ''Field'', ''field_validator'',
      ''Data'', ''HumblObject'', ''QueryParams'', ''ToolboxQueryParams'', ''Env'',
      ''log_start_end'', ''setup_logger'', ''env'', ''Q'', ''logger'',
      ''MOMENTUM_QUERY_DESCRIPTIONS'', ''MomentumQueryParams'', ''MomentumData'',
      ''MomentumFetcher'']"

text \<open>
  The \<open>except Exception as e\<close> handler of \<open>transform_data\<close>:
  \<open>raise HumblDataError(f"Momentum transformation failed: {str(e)}") from e\<close>.
\<close>

definition momentum_handler :: "exn \<Rightarrow> exn" where
  "momentum_handler e =
     raise_global momentum_module_names ''HumblDataError''
       (''Momentum transformation failed: '' @ exn_msg e) (Some e)"

text \<open>
  The kernel \<open>momentum(data, method, period).collect()\<close> is a parameter: it takes the
  lazy frame and returns the collected table, or raises. The whole body runs inside the
  \<open>try\<close>: the update of \<open>extra\<close>, the reads of the attributes, the kernel.
\<close>

type_synonym momentum_kernel = "lazyframe \<Rightarrow> string \<Rightarrow> int \<Rightarrow> exn + frame"

definition momentum_transform_data :: "momentum_kernel \<Rightarrow> MomentumFetcher \<Rightarrow> exn option \<times> MomentumFetcher" where
  "momentum_transform_data momentum self =
     (case mf_extra self of
        None \<Rightarrow> (Some (momentum_handler (no_attribute ''MomentumFetcher'' ''extra'')), self)
      | Some ex \<Rightarrow>
          let self1 = self\<lparr>mf_extra :=
                Some (dict_update ex [(''calculation_method'', PStr ''log''), (''period'', PInt 1)])\<rparr>
          in case mf_equity_historical_data self1 of
               None \<Rightarrow>
                 (Some (momentum_handler (no_attribute ''MomentumFetcher'' ''equity_historical_data'')),
                  self1)
             | Some data \<Rightarrow>
                 (case mf_command_params self1 of
                    CmdModel q \<Rightarrow>
                      (case momentum data (method_name q) (period q) of
                         Inl e \<Rightarrow> (Some (momentum_handler e), self1)
                       | Inr out \<Rightarrow> (None, self1\<lparr>mf_transformed_data := Some out\<rparr>))
                  | CmdKwargs kw \<Rightarrow> (Some (momentum_handler (no_attribute ''dict'' ''method'')), self1)
                  | CmdNone \<Rightarrow> (Some (momentum_handler (no_attribute ''NoneType'' ''method'')), self1)))"

text \<open>
  \<open>fetch_data\<close>. Its decorator \<open>log_start_end\<close> (a logging helper outside the sources)
  is taken to pass results and exceptions through. \<open>a + b\<close> on two lists builds a new
  list.
\<close>

definition momentum_fetch_data ::
  "historical \<Rightarrow> momentum_kernel \<Rightarrow> MomentumFetcher \<Rightarrow>
   (exn + (momentum_kwargs, MomentumQueryParams) HumblObject) \<times> MomentumFetcher" where
  "momentum_fetch_data obb_historical momentum self =
     (case momentum_transform_query self of
        (Some e, s) \<Rightarrow> (Inl e, s)
      | (None, s1) \<Rightarrow>
     (case momentum_extract_data obb_historical s1 of
        (Some e, s) \<Rightarrow> (Inl e, s)
      | (None, s2) \<Rightarrow>
     (case momentum_transform_data momentum s2 of
        (Some e, s) \<Rightarrow> (Inl e, s)
      | (None, s3) \<Rightarrow>
          let cw = (case tq_warnings (mf_context_params s3) of None \<Rightarrow> [] | Some ws \<Rightarrow> ws);
              s4 = s3\<lparr>mf_context_params := (mf_context_params s3)\<lparr>tq_warnings := Some cw\<rparr>\<rparr>;
              fw = (case mf_warnings s4 of None \<Rightarrow> [] | Some ws \<Rightarrow> ws);
              s5 = s4\<lparr>mf_warnings := Some fw\<rparr>;
              ex = (case mf_extra s5 of None \<Rightarrow> [] | Some d \<Rightarrow> d);
              s6 = s5\<lparr>mf_extra := Some ex\<rparr>;
              all_warnings = cw @ fw
          in case mf_transformed_data s6 of
               None \<Rightarrow> (Inl (no_attribute ''MomentumFetcher'' ''transformed_data''), s6)
             | Some r \<Rightarrow>
                 (Inr \<lparr>results = r, provider = tq_provider (mf_context_params s6),
                       warnings = Some all_warnings, chart = mf_chart s6,
                       context_params = Some (mf_context_params s6),
                       command_params = Some (mf_command_params s6),
                       private_context_params = None, private_command_params = None,
                       extra = Some ex\<rparr>, s6))))"

section \<open>Mandelbrot channel: parameters\<close>

record MandelbrotChannelQueryParams =
  window :: string
  rv_adjustment :: bool
  rv_method :: string
  rs_method :: string
  rv_grouped_mean :: bool
  live_price :: bool

record mandelbrot_kwargs =
  kw_window :: "string option"
  kw_rv_adjustment :: "bool option"
  kw_rv_method :: "string option"
  kw_rs_method :: "string option"
  kw_rv_grouped_mean :: "bool option"
  kw_live_price :: "bool option"

definition no_mandelbrot_kwargs :: mandelbrot_kwargs where
  "no_mandelbrot_kwargs =
     \<lparr>kw_window = None, kw_rv_adjustment = None, kw_rv_method = None, kw_rs_method = None,
      kw_rv_grouped_mean = None, kw_live_price = None\<rparr>"

definition rv_methods :: "string list" where
  "rv_methods =
     [''std'', ''parkinson'', ''garman_klass'', ''gk'', ''hodges_tompkins'', ''ht'',
      ''rogers_satchell'', ''rs'', ''yang_zhang'', ''yz'', ''squared_returns'', ''sq'']"

definition rs_methods :: "string list" where
  "rs_methods = [''RS'', ''RS_min'', ''RS_max'', ''RS_mean'']"

text \<open>
  The validator \<open>window_format\<close> runs after the type check, on a \<open>str\<close>; the helper
  \<open>_window_format\<close> (outside the sources) is a parameter. The branch for a value that
  is no \<open>str\<close> is excluded by the type of \<open>v\<close>.
\<close>

definition window_format :: "(string \<Rightarrow> exn + string) \<Rightarrow> string \<Rightarrow> exn + string" where
  "window_format helper v = helper v"

text \<open>
  \<open>MandelbrotChannelQueryParams(**kw)\<close>. A \<open>ValueError\<close> or \<open>AssertionError\<close> of a
  validator becomes a field error; any other exception leaves the constructor as it
  is. A default is not passed through the validator.
\<close>

definition MandelbrotChannelQueryParams_init ::
  "(string \<Rightarrow> exn + string) \<Rightarrow> mandelbrot_kwargs \<Rightarrow> exn + MandelbrotChannelQueryParams" where
  "MandelbrotChannelQueryParams_init helper kw =
     (let rvm = (case kw_rv_method kw of None \<Rightarrow> ''std'' | Some s \<Rightarrow> s);
          rsm = (case kw_rs_method kw of None \<Rightarrow> ''RS'' | Some s \<Rightarrow> s);
          bad = (if rvm \<in> set rv_methods then [] else [''rv_method'']) @
                (if rsm \<in> set rs_methods then [] else [''rs_method''])
      in case (case kw_window kw of None \<Rightarrow> Inr ''1mo'' | Some v \<Rightarrow> window_format helper v) of
           Inl e \<Rightarrow>
             if exn_class e \<in> set [''ValueError'', ''AssertionError'']
             then Inl (validation_error (''window'' # bad)) else Inl e
         | Inr w \<Rightarrow>
             if bad = [] then
               Inr \<lparr>window = w,
                    rv_adjustment = (case kw_rv_adjustment kw of None \<Rightarrow> True | Some b \<Rightarrow> b),
                    rv_method = rvm, rs_method = rsm,
                    rv_grouped_mean = (case kw_rv_grouped_mean kw of None \<Rightarrow> False | Some b \<Rightarrow> b),
                    live_price = (case kw_live_price kw of None \<Rightarrow> False | Some b \<Rightarrow> b)\<rparr>
             else Inl (validation_error bad))"

fun mandelbrot_truthy :: "(mandelbrot_kwargs, MandelbrotChannelQueryParams) command_arg \<Rightarrow> bool" where
  "mandelbrot_truthy CmdNone = False"
| "mandelbrot_truthy (CmdKwargs kw) = (kw \<noteq> no_mandelbrot_kwargs)"
| "mandelbrot_truthy (CmdModel q) = True"

definition MandelbrotChannelQueryParams_path :: string where
  "MandelbrotChannelQueryParams_path =
     ''humbldata.core.standard_models.toolbox.technical.mandelbrot_channel.MandelbrotChannelQueryParams''"

section \<open>Mandelbrot channel: the fetcher\<close>

text \<open>
  The attributes of a \<open>MandelbrotChannelFetcher\<close>. \<open>__init__\<close> sets the two parameter
  objects only. \<open>mc_warnings\<close> is an attribute \<open>warnings\<close> that a caller may have set on
  the object (\<open>None\<close>: no such attribute); no method of the class reads it.
\<close>

record MandelbrotChannelFetcher =
  mc_context_params :: ToolboxQueryParams
  mc_command_params :: "(mandelbrot_kwargs, MandelbrotChannelQueryParams) command_arg"
  mc_warnings :: "Warning list option"
  mc_equity_historical_data :: "lazyframe option"
  mc_transformed_data :: "frame option"
  mc_provider_calls :: "provider_call list"

definition MandelbrotChannelFetcher_init ::
  "ToolboxQueryParams \<Rightarrow> (mandelbrot_kwargs, MandelbrotChannelQueryParams) command_arg \<Rightarrow>
   MandelbrotChannelFetcher" where
  "MandelbrotChannelFetcher_init ctx cmd =
     \<lparr>mc_context_params = ctx, mc_command_params = cmd, mc_warnings = None,
      mc_equity_historical_data = None, mc_transformed_data = None, mc_provider_calls = []\<rparr>"

definition mandelbrot_transform_query ::
  "(string \<Rightarrow> exn + string) \<Rightarrow> MandelbrotChannelFetcher \<Rightarrow> exn option \<times> MandelbrotChannelFetcher" where
  "mandelbrot_transform_query helper self =
     (if \<not> mandelbrot_truthy (mc_command_params self) then
        (case MandelbrotChannelQueryParams_init helper no_mandelbrot_kwargs of
           Inl e \<Rightarrow> (Some e, self\<lparr>mc_command_params := CmdNone\<rparr>)
         | Inr q \<Rightarrow> (None, self\<lparr>mc_command_params := CmdModel q\<rparr>))
      else
        (case mc_command_params self of
           CmdKwargs kw \<Rightarrow>
             (case MandelbrotChannelQueryParams_init helper kw of
                Inl e \<Rightarrow> (Some e, self)
              | Inr q \<Rightarrow> (None, self\<lparr>mc_command_params := CmdModel q\<rparr>))
         | CmdNone \<Rightarrow> (Some (not_a_mapping MandelbrotChannelQueryParams_path ''NoneType''), self)
         | CmdModel q \<Rightarrow>
             (Some (not_a_mapping MandelbrotChannelQueryParams_path ''MandelbrotChannelQueryParams''),
              self)))"

text \<open>
  \<open>extract_data\<close> reads \<open>context_params.symbol\<close> while it builds the arguments of the
  provider call, and returns the lazy frame; \<open>fetch_data\<close> stores it.
\<close>

definition mandelbrot_extract_data ::
  "historical \<Rightarrow> MandelbrotChannelFetcher \<Rightarrow> (exn + lazyframe) \<times> MandelbrotChannelFetcher" where
  "mandelbrot_extract_data obb_historical self =
     (let ctx = mc_context_params self in
      case symbol ctx of
        None \<Rightarrow> (Inl (no_attribute ''ToolboxQueryParams'' ''symbol''), self)
      | Some syms \<Rightarrow>
          let call = historical_call syms ctx;
              self1 = self\<lparr>mc_provider_calls := mc_provider_calls self @ [call]\<rparr>
          in case obb_historical call of
               Inl e \<Rightarrow> (Inl e, self1)
             | Inr df \<Rightarrow>
                 let equity_historical_data = lazy_drop [''dividends'', ''stock_splits''] (lazy df) in
                 if length syms = 1 then
                   (Inr (lazy_with_columns ''symbol'' (Utf8 (syms ! 0)) equity_historical_data), self1)
                 else (Inr equity_historical_data, self1))"

text \<open>
  The kernel \<open>calc_mandelbrot_channel\<close> is a parameter: it takes the lazy frame and
  returns the collected table, or raises; nothing catches what it raises.
\<close>

type_synonym mandelbrot_kernel =
  "lazyframe \<Rightarrow> string \<Rightarrow> bool \<Rightarrow> string \<Rightarrow> bool \<Rightarrow> string \<Rightarrow> bool \<Rightarrow> exn + frame"

definition mandelbrot_transform_data :: "mandelbrot_kernel \<Rightarrow> MandelbrotChannelFetcher \<Rightarrow> exn + frame" where
  "mandelbrot_transform_data calc_mandelbrot_channel self =
     (case mc_equity_historical_data self of
        None \<Rightarrow> Inl (no_attribute ''MandelbrotChannelFetcher'' ''equity_historical_data'')
      | Some data \<Rightarrow>
          (case mc_command_params self of
             CmdModel q \<Rightarrow>
               calc_mandelbrot_channel data (window q) (rv_adjustment q) (rv_method q)
                 (rv_grouped_mean q) (rs_method q) (live_price q)
           | CmdKwargs kw \<Rightarrow> Inl (no_attribute ''dict'' ''window'')
           | CmdNone \<Rightarrow> Inl (no_attribute ''NoneType'' ''window'')))"

definition mandelbrot_fetch_data ::
  "(string \<Rightarrow> exn + string) \<Rightarrow> historical \<Rightarrow> mandelbrot_kernel \<Rightarrow> MandelbrotChannelFetcher \<Rightarrow>
   (exn + (mandelbrot_kwargs, MandelbrotChannelQueryParams) HumblObject) \<times> MandelbrotChannelFetcher" where
  "mandelbrot_fetch_data helper obb_historical calc_mandelbrot_channel self =
     (case mandelbrot_transform_query helper self of
        (Some e, s) \<Rightarrow> (Inl e, s)
      | (None, s1) \<Rightarrow>
     (case mandelbrot_extract_data obb_historical s1 of
        (Inl e, s) \<Rightarrow> (Inl e, s)
      | (Inr lf, s) \<Rightarrow>
          let s2 = s\<lparr>mc_equity_historical_data := Some lf\<rparr> in
          (case mandelbrot_transform_data calc_mandelbrot_channel s2 of
             Inl e \<Rightarrow> (Inl e, s2)
           | Inr out \<Rightarrow>
               (case Data_validate MandelbrotChannelData out of
                  Inl e \<Rightarrow> (Inl e, s2)
                | Inr serialized \<Rightarrow>
                    let s3 = s2\<lparr>mc_transformed_data := Some serialized\<rparr> in
                    (Inr \<lparr>results = serialized, provider = tq_provider (mc_context_params s3),
                          warnings = None, chart = None,
                          context_params = None, command_params = None,
                          private_context_params = Some (mc_context_params s3),
                          private_command_params = Some (mc_command_params s3),
                          extra = None\<rparr>, s3)))))"

section \<open>Validated parameters\<close>

text \<open>
  What the field declarations of the two parameter models admit, and what it is for an
  instance to carry the values of a mapping: each field is the mapping's value, or the
  declared default where the key is absent; a window given in the mapping has passed
  through the validator.
\<close>

definition momentum_params_valid :: "MomentumQueryParams \<Rightarrow> bool" where
  "momentum_params_valid q = (method_name q \<in> set [''log'', ''simple'', ''shift''] \<and> 1 \<le> period q)"

definition momentum_carries :: "momentum_kwargs \<Rightarrow> MomentumQueryParams \<Rightarrow> bool" where
  "momentum_carries kw q =
     (method_name q = (case kw_method kw of None \<Rightarrow> ''log'' | Some m \<Rightarrow> m) \<and>
      period q = (case kw_period kw of None \<Rightarrow> 1 | Some n \<Rightarrow> n))"

definition momentum_kwargs_valid :: "momentum_kwargs \<Rightarrow> bool" where
  "momentum_kwargs_valid kw =
     ((case kw_method kw of None \<Rightarrow> True | Some m \<Rightarrow> m \<in> set [''log'', ''simple'', ''shift'']) \<and>
      (case kw_period kw of None \<Rightarrow> True | Some n \<Rightarrow> 1 \<le> n))"

definition mandelbrot_params_valid :: "MandelbrotChannelQueryParams \<Rightarrow> bool" where
  "mandelbrot_params_valid q = (rv_method q \<in> set rv_methods \<and> rs_method q \<in> set rs_methods)"

definition mandelbrot_carries ::
  "(string \<Rightarrow> exn + string) \<Rightarrow> mandelbrot_kwargs \<Rightarrow> MandelbrotChannelQueryParams \<Rightarrow> bool" where
  "mandelbrot_carries helper kw q =
     ((case kw_window kw of None \<Rightarrow> window q = ''1mo'' | Some v \<Rightarrow> helper v = Inr (window q)) \<and>
      rv_adjustment q = (case kw_rv_adjustment kw of None \<Rightarrow> True | Some b \<Rightarrow> b) \<and>
      rv_method q = (case kw_rv_method kw of None \<Rightarrow> ''std'' | Some m \<Rightarrow> m) \<and>
      rs_method q = (case kw_rs_method kw of None \<Rightarrow> ''RS'' | Some m \<Rightarrow> m) \<and>
      rv_grouped_mean q = (case kw_rv_grouped_mean kw of None \<Rightarrow> False | Some b \<Rightarrow> b) \<and>
      live_price q = (case kw_live_price kw of None \<Rightarrow> False | Some b \<Rightarrow> b))"

definition mandelbrot_kwargs_valid :: "(string \<Rightarrow> exn + string) \<Rightarrow> mandelbrot_kwargs \<Rightarrow> bool" where
  "mandelbrot_kwargs_valid helper kw =
     ((case kw_window kw of None \<Rightarrow> True
       | Some v \<Rightarrow> (case helper v of Inl e \<Rightarrow> False | Inr w \<Rightarrow> True)) \<and>
      (case kw_rv_method kw of None \<Rightarrow> True | Some m \<Rightarrow> m \<in> set rv_methods) \<and>
      (case kw_rs_method kw of None \<Rightarrow> True | Some m \<Rightarrow> m \<in> set rs_methods))"

text \<open>The keyword arguments a constructor receives: none for \<open>None\<close>.\<close>

fun momentum_kwargs_of :: "(momentum_kwargs, MomentumQueryParams) command_arg \<Rightarrow> momentum_kwargs" where
  "momentum_kwargs_of (CmdKwargs kw) = kw"
| "momentum_kwargs_of c = no_momentum_kwargs"

fun mandelbrot_kwargs_of ::
  "(mandelbrot_kwargs, MandelbrotChannelQueryParams) command_arg \<Rightarrow> mandelbrot_kwargs" where
  "mandelbrot_kwargs_of (CmdKwargs kw) = kw"
| "mandelbrot_kwargs_of c = no_mandelbrot_kwargs"


section \<open>Example inputs\<close>

text \<open>
  Concrete collaborators and objects on which the theorems below are evaluated: a
  provider that returns two rows of prices and one that raises, kernels that collect
  their input and return a table, and kernels that raise. \<open>example_context\<close> is a
  context with the attribute \<open>symbols\<close>, \<open>example_symbol_context\<close> one with the
  attribute \<open>symbol\<close>.
\<close>

definition example_context :: "string list \<Rightarrow> ToolboxQueryParams" where
  "example_context syms =
     \<lparr>symbols = Some syms, symbol = None, start_date = ''2024-01-01'',
      end_date = ''2024-03-01'', tq_provider = ''yfinance'',
      tq_warnings = Some [Warning ''range'' ''A'', Warning ''range'' ''B'']\<rparr>"

definition example_symbol_context :: "string list \<Rightarrow> ToolboxQueryParams" where
  "example_symbol_context syms =
     \<lparr>symbols = None, symbol = Some syms, start_date = ''2024-01-01'',
      end_date = ''2024-03-01'', tq_provider = ''yfinance'',
      tq_warnings = Some [Warning ''range'' ''A'', Warning ''range'' ''B'']\<rparr>"

definition example_prices :: frame where
  "example_prices =
     [(''date'', [Date 19723, Date 19724]), (''close'', [Float64 185 0, Float64 187 0]),
      (''dividends'', [Float64 0 0, Float64 0 0]), (''stock_splits'', [Float64 0 0, Float64 0 0])]"

definition example_provider :: historical where
  "example_provider call = Inr example_prices"

definition failing_provider :: historical where
  "failing_provider call = Inl (Exn ''ConnectionError'' ''provider unreachable'' None)"

definition example_momentum :: momentum_kernel where
  "example_momentum lf m p =
     (case collect lf of
        Inl e \<Rightarrow> Inl e
      | Inr data \<Rightarrow> Inr (data @ [(''momentum_'' @ m, replicate (height data) (Float64 p 0))]))"

definition failing_momentum :: momentum_kernel where
  "failing_momentum lf m p = Inl (Exn ''ComputeError'' ''column close not found'' None)"

definition example_channel :: frame where
  "example_channel =
     [(''date'', [Date 19724]), (''symbol'', [Utf8 ''AAPL'']), (''bottom_price'', [Float64 180 0]),
      (''recent_price'', [Float64 187 0]), (''top_price'', [Float64 195 0])]"

definition example_mandelbrot :: mandelbrot_kernel where
  "example_mandelbrot lf w adj rvm gm rsm lp =
     (case collect lf of Inl e \<Rightarrow> Inl e | Inr data \<Rightarrow> Inr example_channel)"

definition failing_mandelbrot :: mandelbrot_kernel where
  "failing_mandelbrot lf w adj rvm gm rsm lp = Inl (Exn ''ComputeError'' ''window too long'' None)"

definition example_window_helper :: "string \<Rightarrow> exn + string" where
  "example_window_helper v = Inr v"

definition example_fetcher :: MomentumFetcher where
  "example_fetcher =
     (MomentumFetcher_init (example_context [''AAPL'']) CmdNone)\<lparr>mf_warnings := Some [Warning ''fetch'' ''C'']\<rparr>"

definition example_mandelbrot_fetcher :: MandelbrotChannelFetcher where
  "example_mandelbrot_fetcher =
     (MandelbrotChannelFetcher_init (example_symbol_context [''AAPL'']) CmdNone)
       \<lparr>mc_warnings := Some [Warning ''fetch'' ''C'']\<rparr>"

definition example_kwargs :: momentum_kwargs where
  "example_kwargs = \<lparr>kw_method = Some ''simple'', kw_period = Some 5\<rparr>"

definition example_mandelbrot_kwargs :: mandelbrot_kwargs where
  "example_mandelbrot_kwargs =
     \<lparr>kw_window = Some ''2w'', kw_rv_adjustment = Some False, kw_rv_method = Some ''yz'',
      kw_rs_method = None, kw_rv_grouped_mean = None, kw_live_price = Some True\<rparr>"

definition example_extracted :: MomentumFetcher where
  "example_extracted =
     snd (momentum_extract_data example_provider
       (snd (momentum_transform_query (MomentumFetcher_init (example_context [''AAPL'']) CmdNone))))"

definition example_mandelbrot_extracted :: MandelbrotChannelFetcher where
  "example_mandelbrot_extracted =
     (snd (mandelbrot_transform_query example_window_helper
        (MandelbrotChannelFetcher_init (example_symbol_context [''AAPL'']) CmdNone)))
     \<lparr>mc_equity_historical_data := Some (lazy example_prices)\<rparr>"

definition example_model :: MomentumQueryParams where
  "example_model = \<lparr>method_name = ''simple'', period = 5\<rparr>"

definition example_mandelbrot_model :: MandelbrotChannelQueryParams where
  "example_mandelbrot_model =
     \<lparr>window = ''1mo'', rv_adjustment = True, rv_method = ''std'', rs_method = ''RS'',
      rv_grouped_mean = False, live_price = False\<rparr>"

section \<open>Properties of symbol normalisation\<close>

lemma str_split_no_sep: "sep \<notin> set s \<Longrightarrow> str_split sep s = [s]"
  by (induction s) auto

lemma str_split_append: "sep \<notin> set x \<Longrightarrow> str_split sep (x @ sep # r) = x # str_split sep r"
  by (induction x) auto

lemma str_split_join:
  "xs \<noteq> [] \<Longrightarrow> list_all (\<lambda>x. sep \<notin> set x) xs \<Longrightarrow> str_split sep (str_join sep xs) = xs"
proof (induction sep xs rule: str_join.induct)
  case (1 sep)
  then show ?case by simp
next
  case (2 sep x)
  then show ?case by (simp add: str_split_no_sep)
next
  case (3 sep x y ys)
  then show ?case by (simp add: str_split_append)
qed

lemma all_strip_is_str_strs: "all_strip_is_str (map PStr xs) = Inr True"
  by (induction xs) auto

lemma strip_upper_all_strs:
  "strip_upper_all (map PStr xs) = Inr (map (\<lambda>x. PStr (str_upper (str_strip x))) xs)"
  by (induction xs) auto

lemma upper_symbol_coll_strs:
  "upper_symbol (SymbolColl (map PStr xs)) = Inr (map (\<lambda>x. PStr (str_upper (str_strip x))) xs)"
  by (simp add: upper_symbol_def all_strip_is_str_strs strip_upper_all_strs)

lemma upper_symbol_str:
  "upper_symbol (SymbolStr s) = upper_symbol (SymbolColl (map PStr (str_split CHR '','' s)))"
  by (simp add: upper_symbol_def)

lemma of_char_upper_char:
  "(of_char (upper_char c) :: nat) =
     (if (97 \<le> (of_char c :: nat) \<and> (of_char c :: nat) \<le> 122) \<or>
         (224 \<le> (of_char c :: nat) \<and> (of_char c :: nat) \<le> 254 \<and> (of_char c :: nat) \<noteq> 247)
      then of_char c - 32 else of_char c)"
proof (cases "(97 \<le> (of_char c :: nat) \<and> (of_char c :: nat) \<le> 122) \<or>
    (224 \<le> (of_char c :: nat) \<and> (of_char c :: nat) \<le> 254 \<and> (of_char c :: nat) \<noteq> 247)")
  case True
  then have "(of_char c :: nat) - 32 < 256" by arith
  then have "((of_char c :: nat) - 32) mod 256 = of_char c - 32" by (rule mod_less)
  with True show ?thesis by (simp add: upper_char_def Let_def)
next
  case False
  then show ?thesis by (auto simp: upper_char_def Let_def)
qed

lemma upper_char_not_lower: "\<not> is_lower (upper_char c)"
  unfolding is_lower_def Let_def of_char_upper_char by (simp split: if_splits) arith

lemma upper_char_space: "str_isspace (upper_char c) = str_isspace c"
  unfolding str_isspace_def Let_def of_char_upper_char by (simp split: if_splits) arith

lemma str_upper_no_lower: "list_all (\<lambda>c. \<not> is_lower c) (str_upper s)"
  by (simp add: str_upper_def list_all_iff upper_char_not_lower)

lemma last_dropWhile: "dropWhile P xs \<noteq> [] \<Longrightarrow> last (dropWhile P xs) = last xs"
  by (induction xs) (auto split: if_splits)

lemma strip_with_trimmed:
  "strip_with sp s = [] \<or> (\<not> sp (hd (strip_with sp s)) \<and> \<not> sp (last (strip_with sp s)))"
proof (cases "strip_with sp s = []")
  case True
  then show ?thesis by simp
next
  case False
  define t where "t = dropWhile sp s"
  define u where "u = dropWhile sp (rev t)"
  have res: "strip_with sp s = rev u" by (simp add: strip_with_def t_def u_def)
  with False have u: "u \<noteq> []" by simp
  then have t: "t \<noteq> []" by (auto simp: u_def)
  have "\<not> sp (hd u)" using u unfolding u_def by (rule hd_dropWhile)
  then have l: "\<not> sp (last (rev u))" using u by (simp add: last_rev)
  have "last u = last (rev t)" using u unfolding u_def by (rule last_dropWhile)
  then have "hd (rev u) = hd t" using u t by (simp add: hd_rev last_rev)
  moreover have "\<not> sp (hd t)" using t unfolding t_def by (rule hd_dropWhile)
  ultimately show ?thesis using l res by simp
qed

lemma upper_symbol_forms_agree:
  "xs \<noteq> [] \<Longrightarrow> list_all (\<lambda>x. CHR '','' \<notin> set x) xs \<Longrightarrow>
   upper_symbol (SymbolStr (str_join CHR '','' xs)) = upper_symbol (SymbolColl (map PStr xs))"
  by (simp add: upper_symbol_str str_split_join)

section \<open>Properties of frames\<close>






section \<open>Properties of the stages\<close>

lemma momentum_init_valid:
  "MomentumQueryParams_init kw = Inr q \<Longrightarrow> momentum_params_valid q \<and> momentum_carries kw q"
  by (auto simp: MomentumQueryParams_init_def momentum_params_valid_def momentum_carries_def
      validate_method_def Let_def split: if_splits option.splits)

lemma momentum_init_succeeds:
  "(\<exists>q. MomentumQueryParams_init kw = Inr q) = momentum_kwargs_valid kw"
  by (auto simp: MomentumQueryParams_init_def momentum_kwargs_valid_def Let_def split: option.splits)

lemma momentum_init_default:
  "MomentumQueryParams_init no_momentum_kwargs = Inr \<lparr>method_name = ''log'', period = 1\<rparr>"
  by (simp add: MomentumQueryParams_init_def validate_method_def no_momentum_kwargs_def)

lemma momentum_init_fails:
  "MomentumQueryParams_init kw = Inl e \<Longrightarrow> exn_class e = ''ValidationError''"
  by (auto simp: MomentumQueryParams_init_def validation_error_def Let_def split: if_splits)

lemma momentum_init_low_period:
  "kw_period kw = Some n \<Longrightarrow> n < 1 \<Longrightarrow>
   \<exists>msg. MomentumQueryParams_init kw = Inl (Exn ''ValidationError'' msg None)"
  by (simp add: MomentumQueryParams_init_def validation_error_def Let_def)

lemma default_methods: "''std'' \<in> set rv_methods" "''RS'' \<in> set rs_methods"
  by (simp_all add: rv_methods_def rs_methods_def)

lemma mandelbrot_init_valid:
  "MandelbrotChannelQueryParams_init w kw = Inr q \<Longrightarrow>
   mandelbrot_params_valid q \<and> mandelbrot_carries w kw q"
  unfolding MandelbrotChannelQueryParams_init_def mandelbrot_params_valid_def
    mandelbrot_carries_def window_format_def Let_def
  by (auto split: if_splits sum.splits option.splits)

lemma mandelbrot_init_succeeds:
  "(\<exists>q. MandelbrotChannelQueryParams_init w kw = Inr q) = mandelbrot_kwargs_valid w kw"
  unfolding MandelbrotChannelQueryParams_init_def mandelbrot_kwargs_valid_def window_format_def Let_def
  by (cases "kw_window kw"; cases "kw_rv_method kw"; cases "kw_rs_method kw")
    (auto simp: default_methods split: sum.splits)

lemma mandelbrot_init_default:
  "MandelbrotChannelQueryParams_init w no_mandelbrot_kwargs =
     Inr \<lparr>window = ''1mo'', rv_adjustment = True, rv_method = ''std'', rs_method = ''RS'',
          rv_grouped_mean = False, live_price = False\<rparr>"
  by (simp add: MandelbrotChannelQueryParams_init_def no_mandelbrot_kwargs_def default_methods)

lemma momentum_transform_query_frame:
  "momentum_transform_query self = (r, self') \<Longrightarrow>
   mf_context_params self' = mf_context_params self \<and> mf_warnings self' = mf_warnings self \<and>
   mf_chart self' = mf_chart self \<and> mf_extra self' = mf_extra self \<and>
   mf_provider_calls self' = mf_provider_calls self \<and>
   mf_equity_historical_data self' = mf_equity_historical_data self"
  by (auto simp: momentum_transform_query_def split: if_splits sum.splits command_arg.splits)

lemma momentum_extract_data_frame:
  "momentum_extract_data h self = (r, self') \<Longrightarrow>
   mf_context_params self' = mf_context_params self \<and> mf_warnings self' = mf_warnings self \<and>
   mf_chart self' = mf_chart self \<and> mf_extra self' = mf_extra self \<and>
   mf_command_params self' = mf_command_params self"
  by (auto simp: momentum_extract_data_def Let_def split: if_splits sum.splits option.splits)

lemma momentum_transform_data_frame:
  "momentum_transform_data k self = (r, self') \<Longrightarrow>
   mf_context_params self' = mf_context_params self \<and> mf_warnings self' = mf_warnings self \<and>
   mf_chart self' = mf_chart self \<and> mf_command_params self' = mf_command_params self"
  by (auto simp: momentum_transform_data_def Let_def split: option.splits sum.splits command_arg.splits)

lemma momentum_fetch_data_success:
  assumes "momentum_fetch_data h k self = (Inr env, self')"
  shows "warnings env =
           Some ((case tq_warnings (mf_context_params self) of None \<Rightarrow> [] | Some ws \<Rightarrow> ws) @
                 (case mf_warnings self of None \<Rightarrow> [] | Some ws \<Rightarrow> ws))"
    and "chart env = mf_chart self"
    and "tq_warnings (mf_context_params self') =
           Some (case tq_warnings (mf_context_params self) of None \<Rightarrow> [] | Some ws \<Rightarrow> ws)"
    and "context_params env = Some (mf_context_params self')"
    and "mf_warnings self' = Some (case mf_warnings self of None \<Rightarrow> [] | Some ws \<Rightarrow> ws)"
proof -
  obtain s1 where q: "momentum_transform_query self = (None, s1)"
    using assms by (auto simp: momentum_fetch_data_def split: prod.splits option.splits)
  obtain s2 where x: "momentum_extract_data h s1 = (None, s2)"
    using assms q by (auto simp: momentum_fetch_data_def split: prod.splits option.splits)
  obtain s3 where t: "momentum_transform_data k s2 = (None, s3)"
    using assms q x by (auto simp: momentum_fetch_data_def split: prod.splits option.splits)
  have c: "mf_context_params s3 = mf_context_params self" "mf_warnings s3 = mf_warnings self"
    "mf_chart s3 = mf_chart self"
    using momentum_transform_query_frame [OF q] momentum_extract_data_frame [OF x]
      momentum_transform_data_frame [OF t] by simp_all
  show "warnings env =
           Some ((case tq_warnings (mf_context_params self) of None \<Rightarrow> [] | Some ws \<Rightarrow> ws) @
                 (case mf_warnings self of None \<Rightarrow> [] | Some ws \<Rightarrow> ws))"
    using assms q x t c by (auto simp: momentum_fetch_data_def Let_def split: option.splits)
  show "chart env = mf_chart self"
    using assms q x t c by (auto simp: momentum_fetch_data_def Let_def split: option.splits)
  show "tq_warnings (mf_context_params self') =
           Some (case tq_warnings (mf_context_params self) of None \<Rightarrow> [] | Some ws \<Rightarrow> ws)"
    using assms q x t c by (auto simp: momentum_fetch_data_def Let_def split: option.splits)
  show "context_params env = Some (mf_context_params self')"
    using assms q x t c by (auto simp: momentum_fetch_data_def Let_def split: option.splits)
  show "mf_warnings self' = Some (case mf_warnings self of None \<Rightarrow> [] | Some ws \<Rightarrow> ws)"
    using assms q x t c by (auto simp: momentum_fetch_data_def Let_def split: option.splits)
qed

lemma momentum_warnings_merged:
  assumes "momentum_fetch_data h k self = (Inr env, self')"
    and "tq_warnings (mf_context_params self) = Some cw"
    and "mf_warnings self = Some fw"
  shows "warnings env = Some (cw @ fw) \<and>
         tq_warnings (mf_context_params self') = Some cw \<and>
         map_option tq_warnings (context_params env) = Some (Some cw) \<and>
         mf_warnings self' = Some fw"
  using momentum_fetch_data_success [OF assms(1)] assms(2,3) by simp

lemma mandelbrot_transform_query_frame:
  "mandelbrot_transform_query w self = (r, self') \<Longrightarrow>
   mc_context_params self' = mc_context_params self \<and>
   mc_provider_calls self' = mc_provider_calls self"
  by (auto simp: mandelbrot_transform_query_def split: if_splits sum.splits command_arg.splits)

lemma momentum_transform_data_raises:
  "momentum_transform_data k self = (Some e, self') \<Longrightarrow>
   e = Exn ''NameError'' (''name '' @ quoted ''HumblDataError'' @ '' is not defined'') None"
  by (auto simp: momentum_transform_data_def momentum_handler_def raise_global_def
      momentum_module_names_def Let_def split: option.splits sum.splits command_arg.splits)

lemma momentum_transform_data_extra:
  "momentum_transform_data k self = (None, self') \<Longrightarrow> mf_extra self = Some d \<Longrightarrow>
   mf_extra self' = Some (dict_update d [(''calculation_method'', PStr ''log''), (''period'', PInt 1)])"
  by (auto simp: momentum_transform_data_def Let_def split: option.splits sum.splits command_arg.splits)

lemma mandelbrot_fetch_data_success:
  assumes "mandelbrot_fetch_data w h k self = (Inr env, self')"
  shows "warnings env = None" and "chart env = None"
    and "columns_conform MandelbrotChannelData (results env)"
    and "mc_context_params self' = mc_context_params self"
  using assms
  by (auto simp: mandelbrot_fetch_data_def mandelbrot_extract_data_def Data_validate_def Let_def
      dest!: mandelbrot_transform_query_frame
      split: prod.splits option.splits sum.splits if_splits)

lemma momentum_extra_defaults:
  assumes "momentum_fetch_data h k (MomentumFetcher_init ctx cmd) = (Inr env, self')"
  shows "extra env = Some [(''calculation_method'', PStr ''log''), (''period'', PInt 1)]"
proof -
  let ?self = "MomentumFetcher_init ctx cmd"
  obtain s1 where q: "momentum_transform_query ?self = (None, s1)"
    using assms by (auto simp: momentum_fetch_data_def split: prod.splits option.splits)
  obtain s2 where x: "momentum_extract_data h s1 = (None, s2)"
    using assms q by (auto simp: momentum_fetch_data_def split: prod.splits option.splits)
  obtain s3 where t: "momentum_transform_data k s2 = (None, s3)"
    using assms q x by (auto simp: momentum_fetch_data_def split: prod.splits option.splits)
  have "mf_extra s2 = Some []"
    using momentum_transform_query_frame [OF q] momentum_extract_data_frame [OF x]
    by (simp add: MomentumFetcher_init_def)
  then have "mf_extra s3 = Some [(''calculation_method'', PStr ''log''), (''period'', PInt 1)]"
    using momentum_transform_data_extra [OF t] by simp
  then show ?thesis
    using assms q x t by (auto simp: momentum_fetch_data_def Let_def split: option.splits)
qed

lemma momentum_results_are_kernel_output:
  assumes "momentum_fetch_data h k self = (Inr env, self')"
  shows "\<exists>data m p. k data m p = Inr (results env)"
  using assms
  by (auto simp: momentum_fetch_data_def momentum_transform_data_def Let_def
      split: prod.splits option.splits sum.splits command_arg.splits) blast+




lemmas example_defs =
  example_context_def example_symbol_context_def example_prices_def example_provider_def
  failing_provider_def example_momentum_def failing_momentum_def example_channel_def
  example_mandelbrot_def failing_mandelbrot_def example_window_helper_def example_fetcher_def
  example_mandelbrot_fetcher_def example_kwargs_def example_mandelbrot_kwargs_def

lemmas frame_defs =
  with_columns_def lit_column_def height_def drop_columns_def lazy_def lazy_drop_def
  lazy_with_columns_def collect_def historical_call_def

lemmas momentum_defs =
  momentum_fetch_data_def momentum_transform_query_def momentum_extract_data_def
  momentum_transform_data_def MomentumFetcher_init_def MomentumQueryParams_init_def
  no_momentum_kwargs_def validate_method_def validation_error_def momentum_handler_def
  raise_global_def momentum_module_names_def quoted_def Let_def

lemmas mandelbrot_defs =
  mandelbrot_fetch_data_def mandelbrot_transform_query_def mandelbrot_extract_data_def
  mandelbrot_transform_data_def MandelbrotChannelFetcher_init_def
  MandelbrotChannelQueryParams_init_def no_mandelbrot_kwargs_def validation_error_def
  window_format_def Data_validate_def MandelbrotChannelData_def rv_methods_def rs_methods_def
  Let_def

section \<open>The claims\<close>

subsection \<open>C1: merged warnings\<close>

text \<open>
  C1 at a Mandelbrot fetcher whose context carries the warnings A and B and on which
  the warning C has been set: the envelope of its successful \<open>fetch_data\<close> carries
  \<open>None\<close>, where the Momentum fetcher on the same warnings returns A, B, C (for every
  input: \<open>momentum_warnings_merged\<close>).
\<close>

theorem mandelbrot_drops_warnings:
  "tq_warnings (mc_context_params example_mandelbrot_fetcher) =
     Some [Warning ''range'' ''A'', Warning ''range'' ''B''] \<and>
   mc_warnings example_mandelbrot_fetcher = Some [Warning ''fetch'' ''C''] \<and>
   map_sum exn_class warnings
     (fst (mandelbrot_fetch_data example_window_helper example_provider example_mandelbrot
        example_mandelbrot_fetcher)) = Inr None \<and>
   map_sum exn_class warnings
     (fst (momentum_fetch_data example_provider example_momentum example_fetcher)) =
     Inr (Some [Warning ''range'' ''A'', Warning ''range'' ''B'', Warning ''fetch'' ''C''])"
  by (simp add: mandelbrot_defs momentum_defs frame_defs example_defs)

subsection \<open>C2: failures of transform_data\<close>

text \<open>
  C2 at a kernel that raises. In the Momentum fetcher the handler of \<open>transform_data\<close>
  names \<open>HumblDataError\<close>, which the module does not bind: what leaves the stage is a
  \<open>NameError\<close> without the kernel's message. In the Mandelbrot fetcher nothing catches
  the kernel's exception: it leaves \<open>transform_data\<close> as it is.
\<close>

theorem transform_data_kernel_failure:
  "fst (momentum_transform_data failing_momentum example_extracted) =
     Some (Exn ''NameError'' ''name 'HumblDataError' is not defined'' None) \<and>
   mandelbrot_transform_data failing_mandelbrot example_mandelbrot_extracted =
     Inl (Exn ''ComputeError'' ''window too long'' None)"
  by (simp add: example_extracted_def example_mandelbrot_extracted_def momentum_defs
      mandelbrot_defs frame_defs example_defs)

subsection \<open>C3: calculation metadata\<close>

text \<open>
  C3 at the command parameters \<open>method = simple\<close>, \<open>period = 5\<close>: the kernel is applied
  with them (its output column says so), and the envelope's \<open>extra\<close> records \<open>log\<close>
  and 1.
\<close>

theorem extra_records_defaults:
  "map_sum exn_class (\<lambda>env. (extra env, command_params env, map_of (results env) ''momentum_simple''))
     (fst (momentum_fetch_data example_provider example_momentum
        (MomentumFetcher_init (example_context [''AAPL'']) (CmdKwargs example_kwargs)))) =
   Inr (Some [(''calculation_method'', PStr ''log''), (''period'', PInt 1)],
        Some (CmdModel \<lparr>method_name = ''simple'', period = 5\<rparr>),
        Some [Float64 5 0, Float64 5 0])"
  by (simp add: momentum_defs frame_defs example_defs)

subsection \<open>C4: a provider that raises\<close>

text \<open>
  C4, as the code has it. When the provider call is reached (\<open>transform_query\<close> has
  returned and the context has the attribute the fetcher reads) and raises \<open>e\<close>,
  \<open>fetch_data\<close> of either fetcher raises \<open>e\<close> itself, and so returns no envelope.
\<close>

theorem provider_fault_propagates:
  assumes "symbols ctx = Some syms" and "h (historical_call syms ctx) = Inl e"
    and "mf_context_params self = ctx" and "fst (momentum_transform_query self) = None"
    and "symbol ctx' = Some syms'" and "h (historical_call syms' ctx') = Inl e"
    and "mc_context_params self' = ctx'" and "fst (mandelbrot_transform_query w self') = None"
  shows "fst (momentum_fetch_data h k self) = Inl e \<and>
         fst (mandelbrot_fetch_data w h k' self') = Inl e"
proof
  obtain s1 where q: "momentum_transform_query self = (None, s1)"
    using assms(4) by (cases "momentum_transform_query self") simp
  have "mf_context_params s1 = ctx"
    using momentum_transform_query_frame [OF q] assms(3) by simp
  then have "fst (momentum_extract_data h s1) = Some e"
    using assms(1,2) by (simp add: momentum_extract_data_def Let_def)
  then show "fst (momentum_fetch_data h k self) = Inl e"
    using q by (auto simp: momentum_fetch_data_def split: prod.splits option.splits)
next
  obtain s1 where q: "mandelbrot_transform_query w self' = (None, s1)"
    using assms(8) by (cases "mandelbrot_transform_query w self'") simp
  have "mc_context_params s1 = ctx'"
    using mandelbrot_transform_query_frame [OF q] assms(7) by simp
  then have "fst (mandelbrot_extract_data h s1) = Inl e"
    using assms(5,6) by (simp add: mandelbrot_extract_data_def Let_def)
  then show "fst (mandelbrot_fetch_data w h k' self') = Inl e"
    using q by (auto simp: mandelbrot_fetch_data_def split: prod.splits option.splits sum.splits)
qed

text \<open>
  C4 at a concrete input: two symbols, a provider that raises \<open>ConnectionError\<close>.
\<close>

theorem provider_fault_propagates_witness:
  "fst (momentum_fetch_data failing_provider example_momentum
          (MomentumFetcher_init (example_context [''AAPL'', ''MSFT'']) (CmdKwargs example_kwargs))) =
     Inl (Exn ''ConnectionError'' ''provider unreachable'' None) \<and>
   fst (mandelbrot_fetch_data example_window_helper failing_provider failing_mandelbrot
          (MandelbrotChannelFetcher_init (example_symbol_context [''AAPL'', ''MSFT'']) CmdNone)) =
     Inl (Exn ''ConnectionError'' ''provider unreachable'' None)"
proof (rule provider_fault_propagates [where ctx = "example_context [''AAPL'', ''MSFT'']"
      and ctx' = "example_symbol_context [''AAPL'', ''MSFT'']"
      and syms = "[''AAPL'', ''MSFT'']" and syms' = "[''AAPL'', ''MSFT'']"])
  show "symbols (example_context [''AAPL'', ''MSFT'']) = Some [''AAPL'', ''MSFT'']"
    by (simp add: example_context_def)
  show "symbol (example_symbol_context [''AAPL'', ''MSFT'']) = Some [''AAPL'', ''MSFT'']"
    by (simp add: example_symbol_context_def)
  show "failing_provider (historical_call [''AAPL'', ''MSFT''] (example_context [''AAPL'', ''MSFT''])) =
    Inl (Exn ''ConnectionError'' ''provider unreachable'' None)"
    by (simp add: failing_provider_def)
  show "failing_provider (historical_call [''AAPL'', ''MSFT''] (example_symbol_context [''AAPL'', ''MSFT''])) =
    Inl (Exn ''ConnectionError'' ''provider unreachable'' None)"
    by (simp add: failing_provider_def)
  show "mf_context_params (MomentumFetcher_init (example_context [''AAPL'', ''MSFT'']) (CmdKwargs example_kwargs))
      = example_context [''AAPL'', ''MSFT'']"
    by (simp add: MomentumFetcher_init_def)
  show "fst (momentum_transform_query
      (MomentumFetcher_init (example_context [''AAPL'', ''MSFT'']) (CmdKwargs example_kwargs))) = None"
    by (simp add: momentum_defs example_defs)
  show "mc_context_params (MandelbrotChannelFetcher_init (example_symbol_context [''AAPL'', ''MSFT'']) CmdNone)
      = example_symbol_context [''AAPL'', ''MSFT'']"
    by (simp add: MandelbrotChannelFetcher_init_def)
  show "fst (mandelbrot_transform_query example_window_helper
      (MandelbrotChannelFetcher_init (example_symbol_context [''AAPL'', ''MSFT'']) CmdNone)) = None"
    by (simp add: mandelbrot_defs example_defs)
qed

text \<open>
  C4 as stated fails: what \<open>fetch_data\<close> raises is the provider's own exception, of the
  provider's class and with no cause attached, not a typed extraction error.
\<close>

theorem provider_fault_counterexample:
  "fst (momentum_fetch_data failing_provider example_momentum
          (MomentumFetcher_init (example_context [''AAPL'']) CmdNone)) =
     Inl (Exn ''ConnectionError'' ''provider unreachable'' None) \<and>
   fst (mandelbrot_fetch_data example_window_helper failing_provider example_mandelbrot
          (MandelbrotChannelFetcher_init (example_symbol_context [''AAPL'']) CmdNone)) =
     Inl (Exn ''ConnectionError'' ''provider unreachable'' None) \<and>
   exn_class (Exn ''ConnectionError'' ''provider unreachable'' None) \<noteq> ''ExtractionError''"
  by (simp add: momentum_defs mandelbrot_defs frame_defs example_defs)

subsection \<open>C5: validated results\<close>

text \<open>
  C5 at a successful Momentum fetch: the envelope's results are the kernel's table, whose
  columns are not those of \<open>MomentumData\<close>; nothing has validated them.
\<close>

theorem momentum_results_unvalidated:
  "map_sum exn_class (\<lambda>env. (map fst (results env), columns_conform MomentumData (results env)))
     (fst (momentum_fetch_data example_provider example_momentum
        (MomentumFetcher_init (example_context [''AAPL'']) CmdNone))) =
   Inr ([''date'', ''close'', ''dividends'', ''stock_splits'', ''symbol'', ''momentum_log''], False)"
  by (simp add: momentum_defs frame_defs example_defs MomentumData_def)

subsection \<open>C6: symbol normalisation\<close>

text \<open>
  C6 at a collection with a non-string element: an \<open>int\<close> makes \<open>upper_symbol\<close> raise
  \<open>AttributeError\<close>, not the validator's \<open>ValueError\<close>, which only an element such as
  \<open>bytes\<close> reaches.
\<close>

theorem upper_symbol_int_element:
  "upper_symbol (SymbolColl [PStr ''aapl'', PInt 5]) =
     Inl (Exn ''AttributeError''
            (CHR 0x27 # ''int'' @ CHR 0x27 # '' object has no attribute '' @ CHR 0x27 # ''strip'' @ [CHR 0x27])
            None) \<and>
   upper_symbol (SymbolColl [PBytes ''aapl'', PInt 5]) =
     Inl (Exn ''ValueError'' ''Every element in `symbol` list must be a `str`'' None)"
  by (simp add: upper_symbol_def no_attribute_def quoted_def)

subsection \<open>C7: period below 1\<close>

text \<open>
  C7. For command parameters given as a mapping with \<open>period < 1\<close>, \<open>transform_query\<close>
  raises \<open>ValidationError\<close>, \<open>fetch_data\<close> raises it, and the fetcher is left with the
  provider calls it had and the data it had: the provider is not called.
\<close>

theorem low_period_fails_fast:
  assumes "mf_command_params self = CmdKwargs kw" and "kw_period kw = Some n" and "n < 1"
  shows "map_option exn_class (fst (momentum_transform_query self)) = Some ''ValidationError'' \<and>
         map_sum exn_class results (fst (momentum_fetch_data h k self)) = Inl ''ValidationError'' \<and>
         mf_provider_calls (snd (momentum_fetch_data h k self)) = mf_provider_calls self \<and>
         mf_equity_historical_data (snd (momentum_fetch_data h k self)) = mf_equity_historical_data self"
proof -
  obtain msg where "MomentumQueryParams_init kw = Inl (Exn ''ValidationError'' msg None)"
    using momentum_init_low_period [OF assms(2,3)] by blast
  moreover have "kw \<noteq> no_momentum_kwargs"
    using assms(2) by (auto simp: no_momentum_kwargs_def)
  ultimately have q: "momentum_transform_query self = (Some (Exn ''ValidationError'' msg None), self)"
    using assms(1) by (simp add: momentum_transform_query_def)
  then show ?thesis by (simp add: momentum_fetch_data_def)
qed

text \<open>
  C7 at \<open>period = 0\<close> on a new fetcher.
\<close>

theorem low_period_fails_fast_witness:
  "map_sum exn_class results (fst (momentum_fetch_data example_provider example_momentum
      (MomentumFetcher_init (example_context [''AAPL'']) (CmdKwargs \<lparr>kw_method = None, kw_period = Some 0\<rparr>))))
      = Inl ''ValidationError'' \<and>
   mf_provider_calls (snd (momentum_fetch_data example_provider example_momentum
      (MomentumFetcher_init (example_context [''AAPL'']) (CmdKwargs \<lparr>kw_method = None, kw_period = Some 0\<rparr>))))
      = []"
  using low_period_fails_fast [of "MomentumFetcher_init (example_context [''AAPL'']) (CmdKwargs \<lparr>kw_method = None, kw_period = Some 0\<rparr>)"
      "\<lparr>kw_method = None, kw_period = Some 0\<rparr>" 0 example_provider example_momentum]
  by (simp add: MomentumFetcher_init_def)

subsection \<open>C8: the injected symbol column\<close>



subsection \<open>C9: command parameters after transform_query\<close>

text \<open>
  C9, for both fetchers. When \<open>transform_query\<close> returns, the fetcher's command
  parameters are a validated model instance that carries the values of the mapping
  the fetcher was constructed with (the defaults for \<open>None\<close> and for absent keys), the
  fetcher was not constructed with a model instance, and nothing else of the fetcher
  has changed. Constructed with \<open>None\<close> or with the empty mapping, \<open>transform_query\<close>
  returns and leaves the all-default instance. Constructed with a mapping, it returns
  exactly when the mapping's values are valid. Constructed with a model instance, it
  raises the \<open>TypeError\<close> of the keyword unpacking and leaves the fetcher as it was.
\<close>

theorem transform_query_command_params:
  "(fst (momentum_transform_query self) = None \<longrightarrow>
      (case mf_command_params (snd (momentum_transform_query self)) of
         CmdModel q \<Rightarrow>
           momentum_params_valid q \<and> momentum_carries (momentum_kwargs_of (mf_command_params self)) q
       | CmdKwargs kw \<Rightarrow> False | CmdNone \<Rightarrow> False) \<and>
      (case mf_command_params self of CmdModel q \<Rightarrow> False | CmdKwargs kw \<Rightarrow> True | CmdNone \<Rightarrow> True) \<and>
      snd (momentum_transform_query self) =
        self\<lparr>mf_command_params := mf_command_params (snd (momentum_transform_query self))\<rparr>) \<and>
   (mf_command_params self = CmdNone \<or> mf_command_params self = CmdKwargs no_momentum_kwargs \<longrightarrow>
      momentum_transform_query self =
        (None, self\<lparr>mf_command_params := CmdModel \<lparr>method_name = ''log'', period = 1\<rparr>\<rparr>)) \<and>
   (mf_command_params self = CmdKwargs kw \<longrightarrow>
      (fst (momentum_transform_query self) = None) = momentum_kwargs_valid kw) \<and>
   (mf_command_params self = CmdModel q \<longrightarrow>
      momentum_transform_query self =
        (Some (not_a_mapping MomentumQueryParams_path ''MomentumQueryParams''), self)) \<and>
   (fst (mandelbrot_transform_query w self') = None \<longrightarrow>
      (case mc_command_params (snd (mandelbrot_transform_query w self')) of
         CmdModel q \<Rightarrow>
           mandelbrot_params_valid q \<and>
           mandelbrot_carries w (mandelbrot_kwargs_of (mc_command_params self')) q
       | CmdKwargs kw \<Rightarrow> False | CmdNone \<Rightarrow> False) \<and>
      (case mc_command_params self' of CmdModel q \<Rightarrow> False | CmdKwargs kw \<Rightarrow> True | CmdNone \<Rightarrow> True) \<and>
      snd (mandelbrot_transform_query w self') =
        self'\<lparr>mc_command_params := mc_command_params (snd (mandelbrot_transform_query w self'))\<rparr>) \<and>
   (mc_command_params self' = CmdNone \<or> mc_command_params self' = CmdKwargs no_mandelbrot_kwargs \<longrightarrow>
      mandelbrot_transform_query w self' =
        (None, self'\<lparr>mc_command_params := CmdModel
           \<lparr>window = ''1mo'', rv_adjustment = True, rv_method = ''std'', rs_method = ''RS'',
            rv_grouped_mean = False, live_price = False\<rparr>\<rparr>)) \<and>
   (mc_command_params self' = CmdKwargs kw' \<longrightarrow>
      (fst (mandelbrot_transform_query w self') = None) = mandelbrot_kwargs_valid w kw') \<and>
   (mc_command_params self' = CmdModel q' \<longrightarrow>
      mandelbrot_transform_query w self' =
        (Some (not_a_mapping MandelbrotChannelQueryParams_path ''MandelbrotChannelQueryParams''), self'))"
proof -
  have m1: "fst (momentum_transform_query self) = None \<longrightarrow>
      (case mf_command_params (snd (momentum_transform_query self)) of
         CmdModel q \<Rightarrow>
           momentum_params_valid q \<and> momentum_carries (momentum_kwargs_of (mf_command_params self)) q
       | CmdKwargs kw \<Rightarrow> False | CmdNone \<Rightarrow> False) \<and>
      (case mf_command_params self of CmdModel q \<Rightarrow> False | CmdKwargs kw \<Rightarrow> True | CmdNone \<Rightarrow> True) \<and>
      snd (momentum_transform_query self) =
        self\<lparr>mf_command_params := mf_command_params (snd (momentum_transform_query self))\<rparr>"
    by (cases "mf_command_params self")
      (auto simp: momentum_transform_query_def dest: momentum_init_valid split: sum.splits if_splits)
  have m2: "mf_command_params self = CmdNone \<or> mf_command_params self = CmdKwargs no_momentum_kwargs \<longrightarrow>
      momentum_transform_query self =
        (None, self\<lparr>mf_command_params := CmdModel \<lparr>method_name = ''log'', period = 1\<rparr>\<rparr>)"
    by (auto simp: momentum_transform_query_def momentum_init_default)
  have m3: "mf_command_params self = CmdKwargs kw \<longrightarrow>
      (fst (momentum_transform_query self) = None) = momentum_kwargs_valid kw"
  proof
    assume k: "mf_command_params self = CmdKwargs kw"
    show "(fst (momentum_transform_query self) = None) = momentum_kwargs_valid kw"
    proof (cases "kw = no_momentum_kwargs")
      case True
      then show ?thesis using k
        by (simp add: momentum_transform_query_def momentum_init_default)
          (simp add: momentum_kwargs_valid_def no_momentum_kwargs_def)
    next
      case False
      then show ?thesis using k momentum_init_succeeds [of kw]
        by (auto simp: momentum_transform_query_def split: sum.splits)
    qed
  qed
  have m4: "mf_command_params self = CmdModel q \<longrightarrow>
      momentum_transform_query self =
        (Some (not_a_mapping MomentumQueryParams_path ''MomentumQueryParams''), self)"
    by (simp add: momentum_transform_query_def)
  have c1: "fst (mandelbrot_transform_query w self') = None \<longrightarrow>
      (case mc_command_params (snd (mandelbrot_transform_query w self')) of
         CmdModel q \<Rightarrow>
           mandelbrot_params_valid q \<and>
           mandelbrot_carries w (mandelbrot_kwargs_of (mc_command_params self')) q
       | CmdKwargs kw \<Rightarrow> False | CmdNone \<Rightarrow> False) \<and>
      (case mc_command_params self' of CmdModel q \<Rightarrow> False | CmdKwargs kw \<Rightarrow> True | CmdNone \<Rightarrow> True) \<and>
      snd (mandelbrot_transform_query w self') =
        self'\<lparr>mc_command_params := mc_command_params (snd (mandelbrot_transform_query w self'))\<rparr>"
    by (cases "mc_command_params self'")
      (auto simp: mandelbrot_transform_query_def dest: mandelbrot_init_valid split: sum.splits if_splits)
  have c2: "mc_command_params self' = CmdNone \<or> mc_command_params self' = CmdKwargs no_mandelbrot_kwargs \<longrightarrow>
      mandelbrot_transform_query w self' =
        (None, self'\<lparr>mc_command_params := CmdModel
           \<lparr>window = ''1mo'', rv_adjustment = True, rv_method = ''std'', rs_method = ''RS'',
            rv_grouped_mean = False, live_price = False\<rparr>\<rparr>)"
    by (auto simp: mandelbrot_transform_query_def mandelbrot_init_default)
  have c3: "mc_command_params self' = CmdKwargs kw' \<longrightarrow>
      (fst (mandelbrot_transform_query w self') = None) = mandelbrot_kwargs_valid w kw'"
  proof
    assume k: "mc_command_params self' = CmdKwargs kw'"
    show "(fst (mandelbrot_transform_query w self') = None) = mandelbrot_kwargs_valid w kw'"
    proof (cases "kw' = no_mandelbrot_kwargs")
      case True
      then show ?thesis using k
        by (simp add: mandelbrot_transform_query_def mandelbrot_init_default)
          (simp add: mandelbrot_kwargs_valid_def no_mandelbrot_kwargs_def)
    next
      case False
      then show ?thesis using k mandelbrot_init_succeeds [of w kw']
        by (auto simp: mandelbrot_transform_query_def split: sum.splits)
    qed
  qed
  have c4: "mc_command_params self' = CmdModel q' \<longrightarrow>
      mandelbrot_transform_query w self' =
        (Some (not_a_mapping MandelbrotChannelQueryParams_path ''MandelbrotChannelQueryParams''), self')"
    by (simp add: mandelbrot_transform_query_def)
  from m1 m2 m3 m4 c1 c2 c3 c4 show ?thesis by blast
qed

text \<open>
  C9 at a mapping, at \<open>None\<close> and at a model instance, for each fetcher.
\<close>

theorem transform_query_command_params_witness:
  "(case mf_command_params (snd (momentum_transform_query
            (MomentumFetcher_init (example_context [''AAPL'']) (CmdKwargs example_kwargs)))) of
      CmdModel q \<Rightarrow> momentum_params_valid q \<and> method_name q = ''simple'' \<and> period q = 5
    | CmdKwargs kw \<Rightarrow> False | CmdNone \<Rightarrow> False) \<and>
   fst (momentum_transform_query
          (MomentumFetcher_init (example_context [''AAPL'']) (CmdKwargs example_kwargs))) = None \<and>
   mf_command_params (snd (momentum_transform_query
          (MomentumFetcher_init (example_context [''AAPL'']) CmdNone))) =
     CmdModel \<lparr>method_name = ''log'', period = 1\<rparr> \<and>
   fst (momentum_transform_query
          (MomentumFetcher_init (example_context [''AAPL'']) (CmdModel example_model))) =
     Some (not_a_mapping MomentumQueryParams_path ''MomentumQueryParams'') \<and>
   (case mc_command_params (snd (mandelbrot_transform_query example_window_helper
            (MandelbrotChannelFetcher_init (example_symbol_context [''AAPL''])
               (CmdKwargs example_mandelbrot_kwargs)))) of
      CmdModel q \<Rightarrow>
        mandelbrot_params_valid q \<and> window q = ''2w'' \<and> rv_adjustment q = False \<and>
        rv_method q = ''yz'' \<and> rs_method q = ''RS'' \<and> rv_grouped_mean q = False \<and>
        live_price q = True
    | CmdKwargs kw \<Rightarrow> False | CmdNone \<Rightarrow> False) \<and>
   fst (mandelbrot_transform_query example_window_helper
          (MandelbrotChannelFetcher_init (example_symbol_context [''AAPL''])
             (CmdKwargs example_mandelbrot_kwargs))) = None \<and>
   mc_command_params (snd (mandelbrot_transform_query example_window_helper
          (MandelbrotChannelFetcher_init (example_symbol_context [''AAPL'']) CmdNone))) =
     CmdModel \<lparr>window = ''1mo'', rv_adjustment = True, rv_method = ''std'', rs_method = ''RS'',
               rv_grouped_mean = False, live_price = False\<rparr> \<and>
   fst (mandelbrot_transform_query example_window_helper
          (MandelbrotChannelFetcher_init (example_symbol_context [''AAPL''])
             (CmdModel example_mandelbrot_model))) =
     Some (not_a_mapping MandelbrotChannelQueryParams_path ''MandelbrotChannelQueryParams'')"
proof -
  let ?fK = "MomentumFetcher_init (example_context [''AAPL'']) (CmdKwargs example_kwargs)"
  let ?fN = "MomentumFetcher_init (example_context [''AAPL'']) CmdNone"
  let ?fM = "MomentumFetcher_init (example_context [''AAPL'']) (CmdModel example_model)"
  let ?cK = "MandelbrotChannelFetcher_init (example_symbol_context [''AAPL''])
               (CmdKwargs example_mandelbrot_kwargs)"
  let ?cN = "MandelbrotChannelFetcher_init (example_symbol_context [''AAPL'']) CmdNone"
  let ?cM = "MandelbrotChannelFetcher_init (example_symbol_context [''AAPL''])
               (CmdModel example_mandelbrot_model)"
  have vk: "momentum_kwargs_valid example_kwargs"
    by (simp add: momentum_kwargs_valid_def example_kwargs_def)
  have vc: "mandelbrot_kwargs_valid example_window_helper example_mandelbrot_kwargs"
    by (simp add: mandelbrot_kwargs_valid_def example_mandelbrot_kwargs_def
        example_window_helper_def rv_methods_def)
  note k = transform_query_command_params [where self = ?fK and kw = example_kwargs
      and w = example_window_helper and self' = ?cK and kw' = example_mandelbrot_kwargs]
  note n = transform_query_command_params [where self = ?fN and w = example_window_helper
      and self' = ?cN]
  note m = transform_query_command_params [where self = ?fM and q = example_model
      and w = example_window_helper and self' = ?cM and q' = example_mandelbrot_model]
  note k_m1 = k [THEN conjunct1]
  note k_m3 = k [THEN conjunct2, THEN conjunct2, THEN conjunct1]
  note k_c1 = k [THEN conjunct2, THEN conjunct2, THEN conjunct2, THEN conjunct2, THEN conjunct1]
  note k_c3 = k [THEN conjunct2, THEN conjunct2, THEN conjunct2, THEN conjunct2, THEN conjunct2,
      THEN conjunct2, THEN conjunct1]
  note n_m2 = n [THEN conjunct2, THEN conjunct1]
  note n_c2 = n [THEN conjunct2, THEN conjunct2, THEN conjunct2, THEN conjunct2, THEN conjunct2,
      THEN conjunct1]
  note m_m4 = m [THEN conjunct2, THEN conjunct2, THEN conjunct2, THEN conjunct1]
  note m_c4 = m [THEN conjunct2, THEN conjunct2, THEN conjunct2, THEN conjunct2, THEN conjunct2,
      THEN conjunct2, THEN conjunct2]
  have a: "mf_command_params ?fK = CmdKwargs example_kwargs" "mf_command_params ?fN = CmdNone"
    "mf_command_params ?fM = CmdModel example_model"
    "mc_command_params ?cK = CmdKwargs example_mandelbrot_kwargs" "mc_command_params ?cN = CmdNone"
    "mc_command_params ?cM = CmdModel example_mandelbrot_model"
    by (simp_all add: MomentumFetcher_init_def MandelbrotChannelFetcher_init_def)
  have k1: "fst (momentum_transform_query ?fK) = None"
    using k_m3 vk by (simp add: a)
  have k2: "fst (mandelbrot_transform_query example_window_helper ?cK) = None"
    using k_c3 vc by (simp add: a)
  have "case mf_command_params (snd (momentum_transform_query ?fK)) of
      CmdModel q \<Rightarrow> momentum_params_valid q \<and> momentum_carries example_kwargs q
    | CmdKwargs kw \<Rightarrow> False | CmdNone \<Rightarrow> False"
    using k_m1 k1 by (auto simp: a split: command_arg.splits)
  then have k3: "(case mf_command_params (snd (momentum_transform_query ?fK)) of
      CmdModel q \<Rightarrow> momentum_params_valid q \<and> method_name q = ''simple'' \<and> period q = 5
    | CmdKwargs kw \<Rightarrow> False | CmdNone \<Rightarrow> False)"
    by (auto simp: momentum_carries_def example_kwargs_def split: command_arg.splits)
  have "case mc_command_params (snd (mandelbrot_transform_query example_window_helper ?cK)) of
      CmdModel q \<Rightarrow>
        mandelbrot_params_valid q \<and> mandelbrot_carries example_window_helper example_mandelbrot_kwargs q
    | CmdKwargs kw \<Rightarrow> False | CmdNone \<Rightarrow> False"
    using k_c1 k2 by (auto simp: a split: command_arg.splits)
  then have k4: "(case mc_command_params (snd (mandelbrot_transform_query example_window_helper ?cK)) of
      CmdModel q \<Rightarrow>
        mandelbrot_params_valid q \<and> window q = ''2w'' \<and> rv_adjustment q = False \<and>
        rv_method q = ''yz'' \<and> rs_method q = ''RS'' \<and> rv_grouped_mean q = False \<and>
        live_price q = True
    | CmdKwargs kw \<Rightarrow> False | CmdNone \<Rightarrow> False)"
    by (auto simp: mandelbrot_carries_def example_mandelbrot_kwargs_def example_window_helper_def
        split: command_arg.splits)
  have n1: "mf_command_params (snd (momentum_transform_query ?fN)) =
     CmdModel \<lparr>method_name = ''log'', period = 1\<rparr>"
    using n_m2 by (simp add: a)
  have n2: "mc_command_params (snd (mandelbrot_transform_query example_window_helper ?cN)) =
     CmdModel \<lparr>window = ''1mo'', rv_adjustment = True, rv_method = ''std'', rs_method = ''RS'',
               rv_grouped_mean = False, live_price = False\<rparr>"
    using n_c2 by (simp add: a)
  have m1: "fst (momentum_transform_query ?fM) =
     Some (not_a_mapping MomentumQueryParams_path ''MomentumQueryParams'')"
    using m_m4 by (simp add: a)
  have m2: "fst (mandelbrot_transform_query example_window_helper ?cM) =
     Some (not_a_mapping MandelbrotChannelQueryParams_path ''MandelbrotChannelQueryParams'')"
    using m_c4 by (simp add: a)
  from k1 k2 k3 k4 n1 n2 m1 m2 show ?thesis by blast
qed

subsection \<open>C10: the chart\<close>

text \<open>
  C10. The envelope of a successful \<open>fetch_data\<close> on a newly constructed fetcher of
  either command has no chart.
\<close>

theorem chart_is_None:
  "(momentum_fetch_data h k (MomentumFetcher_init ctx cmd) = (Inr env, self') \<longrightarrow> chart env = None) \<and>
   (mandelbrot_fetch_data w h k' (MandelbrotChannelFetcher_init ctx cmd') = (Inr env', self'') \<longrightarrow>
      chart env' = None)"
  by (auto dest: momentum_fetch_data_success(2) mandelbrot_fetch_data_success(2)
      simp: MomentumFetcher_init_def)

text \<open>
  C10 at a successful fetch of each command.
\<close>

theorem chart_is_None_witness:
  "map_sum exn_class chart (fst (momentum_fetch_data example_provider example_momentum
      (MomentumFetcher_init (example_context [''AAPL'']) CmdNone))) = Inr None \<and>
   map_sum exn_class chart (fst (mandelbrot_fetch_data example_window_helper example_provider example_mandelbrot
      (MandelbrotChannelFetcher_init (example_symbol_context [''AAPL'']) CmdNone))) = Inr None"
proof -
  let ?m = "momentum_fetch_data example_provider example_momentum
      (MomentumFetcher_init (example_context [''AAPL'']) CmdNone)"
  let ?c = "mandelbrot_fetch_data example_window_helper example_provider example_mandelbrot
      (MandelbrotChannelFetcher_init (example_symbol_context [''AAPL'']) CmdNone)"
  have m: "?m = (Inr (projr (fst ?m)), snd ?m)"
    by (simp add: momentum_defs frame_defs example_defs)
  have c: "?c = (Inr (projr (fst ?c)), snd ?c)"
    by (simp add: mandelbrot_defs frame_defs example_defs)
  have "chart (projr (fst ?m)) = None"
    using chart_is_None [where h = example_provider and k = example_momentum
        and ctx = "example_context [''AAPL'']" and cmd = CmdNone
        and env = "projr (fst ?m)" and self' = "snd ?m"] m by simp
  moreover have "chart (projr (fst ?c)) = None"
    using chart_is_None [where h = example_provider and w = example_window_helper
        and k' = example_mandelbrot and ctx = "example_symbol_context [''AAPL'']" and cmd' = CmdNone
        and env' = "projr (fst ?c)" and self'' = "snd ?c"] c by simp
  ultimately show ?thesis using m c by (metis fst_conv map_sum.simps(2))
qed

end
